theory Spec2Isabelle
  imports Main "HOL-Library.Sublist"
begin

section \<open>Data model of the volunteer activity matcher (app.py)\<close>

text \<open>
  A Python \<open>str\<close> is a sequence of Unicode code points; the application's labels are
  Chinese, so strings are lists of code points and not byte strings.
\<close>

type_synonym pystr = "nat list"

text \<open>
  The dictionaries built by \<open>register_user\<close> and \<open>add_activity\<close>. The keys \<open>id\<close>,
  \<open>name\<close> and \<open>location\<close> occur in both, so the fields carry a prefix.
\<close>

record user =
  u_id :: int
  u_name :: pystr
  u_location :: pystr
  u_preferred_categories :: "pystr list"
  u_available_days :: "pystr list"
  u_registered_activities :: "int list"

record activity =
  a_id :: int
  a_name :: pystr
  a_category :: pystr
  a_location :: pystr
  a_date :: pystr
  a_time_range :: pystr
  a_description :: pystr
  a_participants :: "int list"

text \<open>The document \<open>{"users": [...], "activities": [...]}\<close>.\<close>

record document =
  users :: "user list"
  activities :: "activity list"

datatype py_exception =
  ValueError | StopIteration | IndexError | OSError | JSONDecodeError | UnicodeEncodeError

text \<open>
  The file \<open>volunteer_data.json\<close>: absent, present but failing in \<open>open\<close> or
  \<open>json.load\<close> with an exception, or present and holding a document.
\<close>

datatype backing_file = Absent | Unreadable py_exception | Stored document

text \<open>
  The object \<open>VolunteerActivityMatcher\<close>: the document in memory (\<open>self.data\<close>) and the
  file named by \<open>self.data_file\<close>.
\<close>

record matcher =
  data :: document
  data_file :: backing_file

section \<open>Persistence\<close>

definition empty_document :: document where
  "empty_document = \<lparr>users = [], activities = []\<rparr>"

text \<open>
  \<open>_load_data\<close>: the result and whether \<open>st.error\<close> reported the file as damaged.
  The handler \<open>except Exception\<close> catches every exception of the \<open>try\<close> block.
\<close>

definition load_data :: "backing_file \<Rightarrow> document \<times> bool" where
  "load_data f =
     (case f of
        Absent \<Rightarrow> (empty_document, False)
      | Stored d \<Rightarrow> (d, False)
      | Unreadable e \<Rightarrow> (empty_document, True))"

text \<open>
  \<open>_save_data\<close> opens the file for writing, which empties it, and \<open>json.dump\<close> with
  \<open>ensure_ascii=False\<close> writes the document as UTF-8 text. A string that holds a lone
  surrogate (a code point from D800 to DFFF, which \<open>json.load\<close> builds from an escape
  such as \<open>\ud800\<close>) cannot be encoded: the write raises \<open>UnicodeEncodeError\<close> and the
  file keeps the part written before it, a fragment that \<open>json.load\<close> rejects. Nothing
  catches the exception, so it leaves the calling operation, after that operation has
  changed the document in memory. The file is taken to be writable, so that \<open>open\<close>
  itself succeeds.
\<close>

definition is_surrogate :: "nat \<Rightarrow> bool" where
  "is_surrogate c = (55296 \<le> c \<and> c \<le> 57343)"

definition str_encodable :: "pystr \<Rightarrow> bool" where
  "str_encodable s = list_all (\<lambda>c. \<not> is_surrogate c) s"

definition user_encodable :: "user \<Rightarrow> bool" where
  "user_encodable u =
     (str_encodable (u_name u) \<and> str_encodable (u_location u) \<and>
      list_all str_encodable (u_preferred_categories u) \<and>
      list_all str_encodable (u_available_days u))"

definition activity_encodable :: "activity \<Rightarrow> bool" where
  "activity_encodable a =
     (str_encodable (a_name a) \<and> str_encodable (a_category a) \<and>
      str_encodable (a_location a) \<and> str_encodable (a_date a) \<and>
      str_encodable (a_time_range a) \<and> str_encodable (a_description a))"

definition encodable :: "document \<Rightarrow> bool" where
  "encodable d = (list_all user_encodable (users d) \<and> list_all activity_encodable (activities d))"

definition save_data :: "matcher \<Rightarrow> (py_exception + unit) \<times> matcher" where
  "save_data m =
     (if encodable (data m) then (Inr (), m\<lparr>data_file := Stored (data m)\<rparr>)
      else (Inl UnicodeEncodeError, m\<lparr>data_file := Unreadable JSONDecodeError\<rparr>))"

text \<open>
  The statements after a call of \<open>_save_data\<close> only build the value to return: the
  operation returns \<open>x\<close> when the save returned and raises what the save raised.
\<close>

definition returning :: "'a \<Rightarrow> (py_exception + unit) \<times> matcher \<Rightarrow> (py_exception + 'a) \<times> matcher" where
  "returning x r = ((case fst r of Inl e \<Rightarrow> Inl e | Inr u \<Rightarrow> Inr x), snd r)"

text \<open>\<open>__init__\<close>.\<close>

definition init_matcher :: "backing_file \<Rightarrow> matcher" where
  "init_matcher f = \<lparr>data = fst (load_data f), data_file = f\<rparr>"

section \<open>Creation\<close>

definition add_activity ::
  "matcher \<Rightarrow> pystr \<Rightarrow> pystr \<Rightarrow> pystr \<Rightarrow> pystr \<Rightarrow> pystr \<Rightarrow> pystr \<Rightarrow>
     (py_exception + activity) \<times> matcher" where
  "add_activity m name category location date time_range description =
     (let act = \<lparr>a_id = int (length (activities (data m))) + 1,
                 a_name = name, a_category = category, a_location = location,
                 a_date = date, a_time_range = time_range,
                 a_description = description, a_participants = []\<rparr>;
          m' = m\<lparr>data := (data m)\<lparr>activities := activities (data m) @ [act]\<rparr>\<rparr>
      in returning act (save_data m'))"

definition register_user ::
  "matcher \<Rightarrow> pystr \<Rightarrow> pystr \<Rightarrow> pystr list \<Rightarrow> pystr list \<Rightarrow>
     (py_exception + user) \<times> matcher" where
  "register_user m name location preferred_categories available_days =
     (let usr = \<lparr>u_id = int (length (users (data m))) + 1,
                 u_name = name, u_location = location,
                 u_preferred_categories = preferred_categories,
                 u_available_days = available_days,
                 u_registered_activities = []\<rparr>;
          m' = m\<lparr>data := (data m)\<lparr>users := users (data m) @ [usr]\<rparr>\<rparr>
      in returning usr (save_data m'))"

section \<open>Registration\<close>

text \<open>
  \<open>next((u for u in self.data["users"] if u["id"] == user_id), None)\<close> yields the
  first record with the id, and the record is the object held by the list: a later
  \<open>append\<close> on it changes the list's element in place. \<open>update_first\<close> is that
  mutation of the first record that satisfies the test.
\<close>

definition find_user :: "document \<Rightarrow> int \<Rightarrow> user option" where
  "find_user d user_id = find (\<lambda>u. u_id u = user_id) (users d)"

definition find_activity :: "document \<Rightarrow> int \<Rightarrow> activity option" where
  "find_activity d activity_id = find (\<lambda>a. a_id a = activity_id) (activities d)"

fun update_first :: "('a \<Rightarrow> bool) \<Rightarrow> ('a \<Rightarrow> 'a) \<Rightarrow> 'a list \<Rightarrow> 'a list" where
  "update_first P f [] = []"
| "update_first P f (x # xs) = (if P x then f x # xs else x # update_first P f xs)"

text \<open>
  The four strings the function returns; \<open>Success\<close> carries the activity's name, which
  the source formats into the message.
\<close>

datatype outcome = UserNotFound | ActivityNotFound | AlreadyRegistered | Success pystr

definition outcome_text :: "outcome \<Rightarrow> pystr" where
  "outcome_text r =
     (case r of
        UserNotFound \<Rightarrow> [29992, 25143, 19981, 23384, 22312]
      | ActivityNotFound \<Rightarrow> [27963, 21160, 19981, 23384, 22312]
      | AlreadyRegistered \<Rightarrow> [20320, 24050, 25253, 21517, 21442, 21152, 27492, 27963, 21160]
      | Success name \<Rightarrow> [25104, 21151, 25253, 21517, 21442, 21152, 27963, 21160, 58, 32] @ name)"

definition register_for_activity ::
  "matcher \<Rightarrow> int \<Rightarrow> int \<Rightarrow> (py_exception + outcome) \<times> matcher" where
  "register_for_activity m user_id activity_id =
     (case find_user (data m) user_id of
        None \<Rightarrow> (Inr UserNotFound, m)
      | Some usr \<Rightarrow>
          (case find_activity (data m) activity_id of
             None \<Rightarrow> (Inr ActivityNotFound, m)
           | Some act \<Rightarrow>
               if activity_id \<in> set (u_registered_activities usr) then (Inr AlreadyRegistered, m)
               else
                 (let us = update_first (\<lambda>u. u_id u = user_id)
                             (\<lambda>u. u\<lparr>u_registered_activities := u_registered_activities u @ [activity_id]\<rparr>)
                             (users (data m));
                      as = update_first (\<lambda>a. a_id a = activity_id)
                             (\<lambda>a. a\<lparr>a_participants := a_participants a @ [user_id]\<rparr>)
                             (activities (data m));
                      m' = m\<lparr>data := \<lparr>users = us, activities = as\<rparr>\<rparr>
                  in returning (Success (a_name act)) (save_data m'))))"

section \<open>Cancelling a registration\<close>

text \<open>
  The handler of the button \<open>cancel registration\<close> on the page of the user's activities.
  Its \<open>activity\<close> is an object of \<open>matcher.data["activities"]\<close> (the list built by
  \<open>list_user_activities\<close> holds the same objects), identified here by its position
  \<open>k\<close> in that list. \<open>next\<close> is called without a default and raises \<open>StopIteration\<close>
  when no user has the id; \<open>list.remove\<close> deletes the first occurrence only, which is
  \<open>remove1\<close>. A position beyond the list names no object the handler could be bound to;
  the model answers it with an error and no change.
\<close>

definition cancel_registration :: "matcher \<Rightarrow> int \<Rightarrow> nat \<Rightarrow> (py_exception + unit) \<times> matcher" where
  "cancel_registration m user_id k =
     (case find_user (data m) user_id of
        None \<Rightarrow> (Inl StopIteration, m)
      | Some usr \<Rightarrow>
          if length (activities (data m)) \<le> k then (Inl IndexError, m)
          else
             (let act = activities (data m) ! k;
                  us = update_first (\<lambda>u. u_id u = user_id)
                         (\<lambda>u. if a_id act \<in> set (u_registered_activities u)
                              then u\<lparr>u_registered_activities := remove1 (a_id act) (u_registered_activities u)\<rparr>
                              else u)
                         (users (data m));
                  act' = (if user_id \<in> set (a_participants act)
                          then act\<lparr>a_participants := remove1 user_id (a_participants act)\<rparr>
                          else act);
                  as = (activities (data m))[k := act'];
                  m' = m\<lparr>data := \<lparr>users = us, activities = as\<rparr>\<rparr>
              in save_data m'))"

section \<open>Matching\<close>

text \<open>
  Two functions of the Python runtime decide the match and are not code of the
  application: \<open>str.lower\<close>, whose Unicode case tables are the interpreter's, and
  \<open>datetime.strptime(s, "%Y-%m-%d")\<close>, which raises \<open>ValueError\<close> on a string it does not
  accept. The model takes both as parameters.
\<close>

record pydate =
  dt_year :: nat
  dt_month :: nat
  dt_day :: nat

record runtime =
  str_lower :: "pystr \<Rightarrow> pystr"
  strptime :: "pystr \<Rightarrow> py_exception + pydate"

text \<open>
  \<open>strftime("%A")\<close> in the C locale: the English name of the day of the week of the
  proleptic Gregorian date, Monday being day 0 as in \<open>date.weekday()\<close>.
\<close>

definition is_leap :: "nat \<Rightarrow> bool" where
  "is_leap y = (y mod 4 = 0 \<and> (y mod 100 \<noteq> 0 \<or> y mod 400 = 0))"

definition days_in_month :: "nat \<Rightarrow> nat \<Rightarrow> nat" where
  "days_in_month y mo =
     (if mo = 2 then (if is_leap y then 29 else 28)
      else if mo = 4 \<or> mo = 6 \<or> mo = 9 \<or> mo = 11 then 30 else 31)"

definition days_before_year :: "nat \<Rightarrow> nat" where
  "days_before_year y = (y - 1) * 365 + (y - 1) div 4 - (y - 1) div 100 + (y - 1) div 400"

definition days_before_month :: "nat \<Rightarrow> nat \<Rightarrow> nat" where
  "days_before_month y mo = sum_list (map (days_in_month y) [1..<mo])"

definition toordinal :: "pydate \<Rightarrow> nat" where
  "toordinal dt = days_before_year (dt_year dt) + days_before_month (dt_year dt) (dt_month dt) + dt_day dt"

definition weekday :: "pydate \<Rightarrow> nat" where
  "weekday dt = (toordinal dt + 6) mod 7"

definition Monday :: pystr where "Monday = [77, 111, 110, 100, 97, 121]"
definition Tuesday :: pystr where "Tuesday = [84, 117, 101, 115, 100, 97, 121]"
definition Wednesday :: pystr where "Wednesday = [87, 101, 100, 110, 101, 115, 100, 97, 121]"
definition Thursday :: pystr where "Thursday = [84, 104, 117, 114, 115, 100, 97, 121]"
definition Friday :: pystr where "Friday = [70, 114, 105, 100, 97, 121]"
definition Saturday :: pystr where "Saturday = [83, 97, 116, 117, 114, 100, 97, 121]"
definition Sunday :: pystr where "Sunday = [83, 117, 110, 100, 97, 121]"

definition weekday_names :: "pystr list" where
  "weekday_names = [Monday, Tuesday, Wednesday, Thursday, Friday, Saturday, Sunday]"

definition strftime_A :: "pydate \<Rightarrow> pystr" where
  "strftime_A dt = weekday_names ! weekday dt"

text \<open>
  The dictionary \<open>chinese_days\<close> of the source; its keys are the labels zhou-yi (Monday)
  to zhou-ri (Sunday), written as code points.
\<close>

definition chinese_days_items :: "(pystr \<times> pystr) list" where
  "chinese_days_items =
     [([21608, 19968], Monday), ([21608, 20108], Tuesday), ([21608, 19977], Wednesday),
      ([21608, 22235], Thursday), ([21608, 20116], Friday), ([21608, 20845], Saturday),
      ([21608, 26085], Sunday)]"

definition chinese_days :: "pystr \<rightharpoonup> pystr" where
  "chinese_days = map_of chinese_days_items"

text \<open>\<open>x in y\<close> on two strings: \<open>x\<close> occurs in \<open>y\<close> as a contiguous run.\<close>

fun str_in :: "pystr \<Rightarrow> pystr \<Rightarrow> bool" where
  "str_in x [] = (x = [])"
| "str_in x (c # cs) = (prefix x (c # cs) \<or> str_in x cs)"

text \<open>The inner loop over \<open>user["available_days"]\<close>, leaving at the first hit.\<close>

fun day_matched :: "runtime \<Rightarrow> pystr \<Rightarrow> pystr list \<Rightarrow> bool" where
  "day_matched rt activity_day [] = False"
| "day_matched rt activity_day (user_day # rest) =
     (if str_in (str_lower rt user_day) (str_lower rt activity_day) then True
      else if (case chinese_days user_day of
                 None \<Rightarrow> False
               | Some en \<Rightarrow> str_in (str_lower rt en) (str_lower rt activity_day)) then True
      else day_matched rt activity_day rest)"

text \<open>
  The loop over \<open>self.data["activities"]\<close> with the list \<open>matched\<close> built so far. An
  exception of \<open>strptime\<close> is not caught and ends the loop.
\<close>

fun match_loop :: "runtime \<Rightarrow> user \<Rightarrow> activity list \<Rightarrow> activity list \<Rightarrow> py_exception + activity list" where
  "match_loop rt usr [] matched = Inr matched"
| "match_loop rt usr (act # rest) matched =
     (case strptime rt (a_date act) of
        Inl e \<Rightarrow> Inl e
      | Inr dt \<Rightarrow>
          (let activity_day = strftime_A dt;
               day_ok = day_matched rt activity_day (u_available_days usr);
               category_matched = (a_category act \<in> set (u_preferred_categories usr));
               location_matched = (a_location act = u_location usr)
           in match_loop rt usr rest
                (if day_ok \<and> (category_matched \<or> location_matched) then matched @ [act] else matched)))"

text \<open>
  The three read operations return their result together with the matcher they leave
  behind.
\<close>

definition match_activities :: "runtime \<Rightarrow> matcher \<Rightarrow> int \<Rightarrow> (py_exception + activity list) \<times> matcher" where
  "match_activities rt m user_id =
     (case find_user (data m) user_id of
        None \<Rightarrow> (Inr [], m)
      | Some usr \<Rightarrow> (match_loop rt usr (activities (data m)) [], m))"

definition list_activities :: "matcher \<Rightarrow> activity list \<times> matcher" where
  "list_activities m = (activities (data m), m)"

definition list_user_activities :: "matcher \<Rightarrow> int \<Rightarrow> activity list \<times> matcher" where
  "list_user_activities m user_id =
     (case find_user (data m) user_id of
        None \<Rightarrow> ([], m)
      | Some usr \<Rightarrow>
          (filter (\<lambda>a. a_id a \<in> set (u_registered_activities usr)) (activities (data m)), m))"

section \<open>Sequences of calls\<close>

datatype creation =
    AddActivity pystr pystr pystr pystr pystr pystr
  | RegisterUser pystr pystr "pystr list" "pystr list"

fun apply_creation :: "matcher \<Rightarrow> creation \<Rightarrow> matcher" where
  "apply_creation m (AddActivity n c l d t ds) = snd (add_activity m n c l d t ds)"
| "apply_creation m (RegisterUser n l cs ds) = snd (register_user m n l cs ds)"

definition run_creations :: "matcher \<Rightarrow> creation list \<Rightarrow> matcher" where
  "run_creations m cs = foldl apply_creation m cs"

text \<open>
  The matcher goes on as the call left it, also when the call raised: \<open>StopIteration\<close>
  comes before the handler's first \<open>remove\<close> and changes nothing, an exception of the
  save comes after the lists were changed.
\<close>

datatype link_call = Register int int | Unregister int nat

fun apply_link_call :: "matcher \<Rightarrow> link_call \<Rightarrow> matcher" where
  "apply_link_call m (Register user_id activity_id) = snd (register_for_activity m user_id activity_id)"
| "apply_link_call m (Unregister user_id k) = snd (cancel_registration m user_id k)"

definition run_link_calls :: "matcher \<Rightarrow> link_call list \<Rightarrow> matcher" where
  "run_link_calls m cs = foldl apply_link_call m cs"

section \<open>Properties of a document named by the specification\<close>

definition symmetric :: "document \<Rightarrow> bool" where
  "symmetric d =
     (\<forall>u \<in> set (users d). \<forall>a \<in> set (activities d).
        a_id a \<in> set (u_registered_activities u) \<longleftrightarrow> u_id u \<in> set (a_participants a))"

definition unique_ids :: "document \<Rightarrow> bool" where
  "unique_ids d = (distinct (map u_id (users d)) \<and> distinct (map a_id (activities d)))"

definition no_duplicate_links :: "document \<Rightarrow> bool" where
  "no_duplicate_links d =
     ((\<forall>u \<in> set (users d). distinct (u_registered_activities u)) \<and>
      (\<forall>a \<in> set (activities d). distinct (a_participants a)))"

text \<open>
  The user that an id names is the first record with the id, here given with the records
  before and after it; likewise the activity.
\<close>

definition first_user :: "document \<Rightarrow> int \<Rightarrow> user list \<Rightarrow> user \<Rightarrow> user list \<Rightarrow> bool" where
  "first_user d user_id us_pre usr us_post =
     (users d = us_pre @ usr # us_post \<and> u_id usr = user_id \<and> (\<forall>u \<in> set us_pre. u_id u \<noteq> user_id))"

definition first_activity ::
  "document \<Rightarrow> int \<Rightarrow> activity list \<Rightarrow> activity \<Rightarrow> activity list \<Rightarrow> bool" where
  "first_activity d activity_id as_pre act as_post =
     (activities d = as_pre @ act # as_post \<and> a_id act = activity_id \<and>
      (\<forall>a \<in> set as_pre. a_id a \<noteq> activity_id))"

text \<open>The ids are the positions counted from one, in creation order.\<close>

definition ids_by_count :: "document \<Rightarrow> bool" where
  "ids_by_count d =
     (map u_id (users d) = map int [1..<Suc (length (users d))] \<and>
      map a_id (activities d) = map int [1..<Suc (length (activities d))])"

text \<open>
  The matching rule in the words of the specification: \<open>x\<close> is a case-insensitive
  substring of \<open>y\<close>; a day entry matches the weekday name directly or through the
  Chinese label's English name.
\<close>

definition ci_substring :: "runtime \<Rightarrow> pystr \<Rightarrow> pystr \<Rightarrow> bool" where
  "ci_substring rt x y = sublist (str_lower rt x) (str_lower rt y)"

definition day_match :: "runtime \<Rightarrow> user \<Rightarrow> pystr \<Rightarrow> bool" where
  "day_match rt usr wd =
     (\<exists>d \<in> set (u_available_days usr).
        ci_substring rt d wd \<or>
        (\<exists>en. (d, en) \<in> set chinese_days_items \<and> ci_substring rt en wd))"

definition category_match :: "user \<Rightarrow> activity \<Rightarrow> bool" where
  "category_match usr act = (a_category act \<in> set (u_preferred_categories usr))"

definition location_match :: "user \<Rightarrow> activity \<Rightarrow> bool" where
  "location_match usr act = (a_location act = u_location usr)"

definition weekday_name_of :: "runtime \<Rightarrow> activity \<Rightarrow> pystr" where
  "weekday_name_of rt act = (case strptime rt (a_date act) of Inr dt \<Rightarrow> strftime_A dt | Inl e \<Rightarrow> [])"

definition rule_holds :: "runtime \<Rightarrow> user \<Rightarrow> activity \<Rightarrow> bool" where
  "rule_holds rt usr act =
     (day_match rt usr (weekday_name_of rt act) \<and> (category_match usr act \<or> location_match usr act))"

definition valid_date :: "runtime \<Rightarrow> pystr \<Rightarrow> bool" where
  "valid_date rt s = (\<exists>dt. strptime rt s = Inr dt)"

section \<open>A runtime for evaluation\<close>

text \<open>
  CPython on ASCII digits and on strings whose only cased characters are ASCII letters
  (the Chinese labels have no case): \<open>lower\<close> maps A to Z to a to z, and \<open>strptime\<close>
  with \<open>%Y-%m-%d\<close> accepts four digits, a month \<open>1[0-2]|0[1-9]|[1-9]\<close> and a day
  \<open>3[0-1]|[1-2]\d|0[1-9]|[1-9]| [1-9]\<close> separated by hyphens, with nothing after them,
  and then requires a date of the calendar from year 1 on.
\<close>

definition ascii_lower :: "pystr \<Rightarrow> pystr" where
  "ascii_lower s = map (\<lambda>c. if 65 \<le> c \<and> c \<le> 90 then c + 32 else c) s"

definition is_digit :: "nat \<Rightarrow> bool" where
  "is_digit c = (48 \<le> c \<and> c \<le> 57)"

definition is_digit19 :: "nat \<Rightarrow> bool" where
  "is_digit19 c = (49 \<le> c \<and> c \<le> 57)"

definition parse_month :: "pystr \<Rightarrow> (nat \<times> pystr) option" where
  "parse_month s =
     (case s of
        a # b # c # r \<Rightarrow>
          if c = 45 \<and> ((a = 49 \<and> 48 \<le> b \<and> b \<le> 50) \<or> (a = 48 \<and> is_digit19 b))
          then Some (10 * (a - 48) + (b - 48), r)
          else if b = 45 \<and> is_digit19 a then Some (a - 48, c # r)
          else None
      | [a, b] \<Rightarrow> if b = 45 \<and> is_digit19 a then Some (a - 48, []) else None
      | _ \<Rightarrow> None)"

definition parse_day :: "pystr \<Rightarrow> nat option" where
  "parse_day s =
     (case s of
        [a, b] \<Rightarrow>
          if (a = 51 \<and> (b = 48 \<or> b = 49)) \<or> ((a = 49 \<or> a = 50) \<and> is_digit b) \<or>
             (a = 48 \<and> is_digit19 b)
          then Some (10 * (a - 48) + (b - 48))
          else if a = 32 \<and> is_digit19 b then Some (b - 48)
          else None
      | [a] \<Rightarrow> if is_digit19 a then Some (a - 48) else None
      | _ \<Rightarrow> None)"

definition strptime_ascii :: "pystr \<Rightarrow> py_exception + pydate" where
  "strptime_ascii s =
     (case s of
        y1 # y2 # y3 # y4 # h # rest \<Rightarrow>
          if is_digit y1 \<and> is_digit y2 \<and> is_digit y3 \<and> is_digit y4 \<and> h = 45 then
            (case parse_month rest of
               None \<Rightarrow> Inl ValueError
             | Some (mo, r) \<Rightarrow>
                 (case parse_day r of
                    None \<Rightarrow> Inl ValueError
                  | Some d \<Rightarrow>
                      (let y = 1000 * (y1 - 48) + 100 * (y2 - 48) + 10 * (y3 - 48) + (y4 - 48)
                       in if 1 \<le> y \<and> d \<le> days_in_month y mo
                          then Inr \<lparr>dt_year = y, dt_month = mo, dt_day = d\<rparr>
                          else Inl ValueError)))
          else Inl ValueError
      | _ \<Rightarrow> Inl ValueError)"

definition cpython_ascii :: runtime where
  "cpython_ascii = \<lparr>str_lower = ascii_lower, strptime = strptime_ascii\<rparr>"

section \<open>Sample documents\<close>

text \<open>
  A user of the eastern district who prefers environmental activities and is free on
  Wednesdays (label zhou-san), and an environmental activity of the western district on
  2024-01-03, a Wednesday.
\<close>

definition sample_user :: user where
  "sample_user =
     \<lparr>u_id = 1, u_name = [65], u_location = [19996, 22478, 21306],
      u_preferred_categories = [[29615, 20445, 27963, 21160]],
      u_available_days = [[21608, 19977]], u_registered_activities = []\<rparr>"

definition sample_activity :: activity where
  "sample_activity =
     \<lparr>a_id = 1, a_name = [66], a_category = [29615, 20445, 27963, 21160],
      a_location = [35199, 22478, 21306],
      a_date = [50, 48, 50, 52, 45, 48, 49, 45, 48, 51],
      a_time_range = [], a_description = [], a_participants = []\<rparr>"

definition sample_matcher :: matcher where
  "sample_matcher =
     \<lparr>data = \<lparr>users = [sample_user], activities = [sample_activity]\<rparr>, data_file = Absent\<rparr>"

text \<open>
  Variants of the activity: same day and the user's district but another category; same
  day, neither the category nor the district; the user's district on the Thursday after;
  and one dated 2024-02-30.
\<close>

definition sample_activity_location :: activity where
  "sample_activity_location =
     sample_activity\<lparr>a_id := 2, a_category := [25945, 32946, 25903, 25345],
                      a_location := [19996, 22478, 21306]\<rparr>"

definition sample_activity_neither :: activity where
  "sample_activity_neither = sample_activity\<lparr>a_id := 3, a_category := [25945, 32946, 25903, 25345]\<rparr>"

definition sample_activity_thursday :: activity where
  "sample_activity_thursday =
     sample_activity\<lparr>a_id := 4, a_location := [19996, 22478, 21306],
                      a_date := [50, 48, 50, 52, 45, 48, 49, 45, 48, 52]\<rparr>"

definition sample_activity_bad_date :: activity where
  "sample_activity_bad_date =
     sample_activity\<lparr>a_id := 5, a_date := [50, 48, 50, 52, 45, 48, 50, 45, 51, 48]\<rparr>"

definition rule_matcher :: matcher where
  "rule_matcher =
     \<lparr>data = \<lparr>users = [sample_user],
              activities = [sample_activity, sample_activity_location,
                            sample_activity_neither, sample_activity_thursday]\<rparr>,
      data_file = Absent\<rparr>"

definition bad_date_matcher :: matcher where
  "bad_date_matcher =
     \<lparr>data = \<lparr>users = [sample_user], activities = [sample_activity, sample_activity_bad_date]\<rparr>,
      data_file = Absent\<rparr>"

text \<open>The sample matcher after user 1 has registered for activity 1.\<close>

definition registered_matcher :: matcher where
  "registered_matcher = snd (register_for_activity sample_matcher 1 1)"


text \<open>
  A document in which two users share id 1 and two activities share id 1, as a file can
  hold them, and that document after user 1 registered for activity 1 and after the
  registration was cancelled again: only the first record of each pair takes part.
\<close>

definition twin_user :: user where
  "twin_user = sample_user\<lparr>u_name := [67]\<rparr>"

definition twin_activity :: activity where
  "twin_activity = sample_activity\<lparr>a_name := [68]\<rparr>"

definition twin_matcher :: matcher where
  "twin_matcher =
     \<lparr>data = \<lparr>users = [sample_user, twin_user], activities = [sample_activity, twin_activity]\<rparr>,
      data_file = Absent\<rparr>"

definition twin_registered :: matcher where
  "twin_registered =
     \<lparr>data = \<lparr>users = [sample_user\<lparr>u_registered_activities := [1]\<rparr>, twin_user],
              activities = [sample_activity\<lparr>a_participants := [1]\<rparr>, twin_activity]\<rparr>,
      data_file = Stored
        \<lparr>users = [sample_user\<lparr>u_registered_activities := [1]\<rparr>, twin_user],
         activities = [sample_activity\<lparr>a_participants := [1]\<rparr>, twin_activity]\<rparr>\<rparr>"

definition twin_cancelled :: matcher where
  "twin_cancelled = \<lparr>data = data twin_matcher, data_file = Stored (data twin_matcher)\<rparr>"

text \<open>
  The invariant of the links: both directions agree, ids are unique, and no list of
  links holds an id twice.
\<close>

definition consistent :: "document \<Rightarrow> bool" where
  "consistent d = (symmetric d \<and> unique_ids d \<and> no_duplicate_links d)"


text \<open>
  A sequence of calls, and a document whose lists of links hold an id twice: a user who
  holds activity 1 twice while the activity holds the user once; and that document after one
  cancellation.
\<close>

definition sample_calls :: "link_call list" where
  "sample_calls = [Register 1 1, Unregister 1 0, Register 1 1]"

definition duplicate_matcher :: matcher where
  "duplicate_matcher =
     \<lparr>data = \<lparr>users = [sample_user\<lparr>u_registered_activities := [1, 1]\<rparr>],
              activities = [sample_activity\<lparr>a_participants := [1]\<rparr>]\<rparr>,
      data_file = Absent\<rparr>"

definition once_cancelled :: matcher where
  "once_cancelled =
     \<lparr>data = \<lparr>users = [sample_user\<lparr>u_registered_activities := [1]\<rparr>],
              activities = [sample_activity]\<rparr>,
      data_file = Stored \<lparr>users = [sample_user\<lparr>u_registered_activities := [1]\<rparr>],
                         activities = [sample_activity]\<rparr>\<rparr>"

text \<open>
  A stored document whose activity has a description holding the lone surrogate D800, and
  what a registration of user 1 for that activity leaves behind.
\<close>

definition surrogate_document :: document where
  "surrogate_document =
     \<lparr>users = [sample_user], activities = [sample_activity\<lparr>a_description := [55296]\<rparr>]\<rparr>"

definition surrogate_matcher :: matcher where
  "surrogate_matcher = \<lparr>data = surrogate_document, data_file = Stored surrogate_document\<rparr>"

definition surrogate_registered :: matcher where
  "surrogate_registered =
     \<lparr>data = \<lparr>users = [sample_user\<lparr>u_registered_activities := [1]\<rparr>],
              activities = [sample_activity\<lparr>a_description := [55296], a_participants := [1]\<rparr>]\<rparr>,
      data_file = Unreadable JSONDecodeError\<rparr>"

text \<open>
  The same description in a stored document in which user 1 and activity 1 are linked,
  and what a cancellation leaves behind.
\<close>

definition surrogate_linked :: matcher where
  "surrogate_linked =
     \<lparr>data = \<lparr>users = [sample_user\<lparr>u_registered_activities := [1]\<rparr>],
              activities = [sample_activity\<lparr>a_description := [55296], a_participants := [1]\<rparr>]\<rparr>,
      data_file = Stored
        \<lparr>users = [sample_user\<lparr>u_registered_activities := [1]\<rparr>],
         activities = [sample_activity\<lparr>a_description := [55296], a_participants := [1]\<rparr>]\<rparr>\<rparr>"

definition surrogate_cancelled :: matcher where
  "surrogate_cancelled = \<lparr>data = surrogate_document, data_file = Unreadable JSONDecodeError\<rparr>"

definition unregistered_matcher :: matcher where
  "unregistered_matcher =
     \<lparr>data = data sample_matcher, data_file = Stored (data sample_matcher)\<rparr>"

definition sample_creations :: "creation list" where
  "sample_creations =
     [RegisterUser [65] [] [] [], AddActivity [66] [] [] [] [] [], RegisterUser [67] [] [] []]"

section \<open>Facts about the lookups\<close>

lemma update_first_split:
  assumes "find P xs = Some x"
  shows "\<exists>ys zs. xs = ys @ x # zs \<and> (\<forall>y \<in> set ys. \<not> P y) \<and>
                 update_first P f xs = ys @ f x # zs"
  using assms
proof (induction xs)
  case Nil
  then show ?case by simp
next
  case (Cons a xs)
  show ?case
  proof (cases "P a")
    case True
    with Cons.prems have "a = x" by simp
    with True have "a # xs = [] @ x # xs \<and> (\<forall>y \<in> set []. \<not> P y) \<and>
        update_first P f (a # xs) = [] @ f x # xs" by simp
    then show ?thesis by blast
  next
    case False
    with Cons.prems have "find P xs = Some x" by simp
    from Cons.IH[OF this] obtain ys zs where
      h: "xs = ys @ x # zs" "\<forall>y \<in> set ys. \<not> P y" "update_first P f xs = ys @ f x # zs"
      by blast
    with False have "a # xs = (a # ys) @ x # zs \<and> (\<forall>y \<in> set (a # ys). \<not> P y) \<and>
        update_first P f (a # xs) = (a # ys) @ f x # zs" by simp
    then show ?thesis by blast
  qed
qed

lemma find_activity_None_iff:
  "find_activity d activity_id = None \<longleftrightarrow> activity_id \<notin> a_id ` set (activities d)"
  by (auto simp: find_activity_def find_None_iff)


lemma find_append_first:
  "\<forall>y \<in> set ys. \<not> P y \<Longrightarrow> P x \<Longrightarrow> find P (ys @ x # zs) = Some x"
  by (induction ys) auto

lemma update_first_append:
  "\<forall>y \<in> set ys. \<not> P y \<Longrightarrow> P x \<Longrightarrow> update_first P f (ys @ x # zs) = ys @ f x # zs"
  by (induction ys) auto

lemma find_user_None_iff: "find_user d user_id = None \<longleftrightarrow> user_id \<notin> u_id ` set (users d)"
  by (auto simp: find_user_def find_None_iff)

lemma first_user_find: "first_user d user_id us_pre usr us_post \<Longrightarrow> find_user d user_id = Some usr"
  by (simp add: first_user_def find_user_def find_append_first)

lemma first_activity_find:
  "first_activity d activity_id as_pre act as_post \<Longrightarrow> find_activity d activity_id = Some act"
  by (simp add: first_activity_def find_activity_def find_append_first)

section \<open>Facts about saving\<close>

lemma snd_returning: "snd (returning x r) = snd r"
  by (simp add: returning_def)

lemma data_save_data: "data (snd (save_data m)) = data m"
  by (simp add: save_data_def)

lemma matcher_fields: "m\<lparr>data := d, data_file := f\<rparr> = \<lparr>data = d, data_file = f\<rparr>"
  by (cases m) simp

lemma save_data_result:
  "save_data (m\<lparr>data := d\<rparr>) =
     (if encodable d then (Inr (), \<lparr>data = d, data_file = Stored d\<rparr>)
      else (Inl UnicodeEncodeError, \<lparr>data = d, data_file = Unreadable JSONDecodeError\<rparr>))"
  by (simp add: save_data_def matcher_fields)

section \<open>Loading the document\<close>

text \<open>
  Claim C8. \<open>_load_data\<close> returns the stored document when the file exists and parses;
  when the file is absent it returns the empty document without a warning, and when
  reading or parsing raises it returns the empty document with the warning. Every case
  yields a document: no exception leaves the function. The matcher starts from that
  document.
\<close>

theorem load_data_recovers:
  "load_data Absent = (empty_document, False) \<and>
   load_data (Unreadable e) = (empty_document, True) \<and>
   load_data (Stored d) = (d, False) \<and>
   data (init_matcher f) = (case f of Stored d \<Rightarrow> d | _ \<Rightarrow> empty_document)"
  by (simp add: load_data_def init_matcher_def split: backing_file.splits)

theorem load_data_recovers_witness:
  "load_data Absent = (empty_document, False) \<and>
   load_data (Unreadable JSONDecodeError) = (empty_document, True) \<and>
   load_data (Stored (data sample_matcher)) = (data sample_matcher, False) \<and>
   data (init_matcher (Unreadable OSError)) = empty_document"
  using load_data_recovers[of JSONDecodeError "data sample_matcher" "Unreadable OSError"]
  by simp

section \<open>The read operations\<close>

text \<open>
  Claim C10. \<open>match_activities\<close>, \<open>list_activities\<close> and \<open>list_user_activities\<close> leave the
  matcher, that is the document in memory and the file, as they found it, for every
  input and also when \<open>match_activities\<close> raises.
\<close>

theorem read_operations_frame:
  "snd (match_activities rt m user_id) = m \<and>
   snd (list_activities m) = m \<and>
   snd (list_user_activities m user_id) = m"
  by (simp add: match_activities_def list_activities_def list_user_activities_def
      split: option.splits)

theorem read_operations_frame_witness:
  "snd (match_activities cpython_ascii bad_date_matcher 1) = bad_date_matcher \<and>
   snd (list_activities bad_date_matcher) = bad_date_matcher \<and>
   snd (list_user_activities bad_date_matcher 1) = bad_date_matcher"
  by (rule read_operations_frame)


section \<open>Registration: the outcomes\<close>

text \<open>The four messages differ, whatever the name of the activity.\<close>

lemma outcome_text_inj: "outcome_text r = outcome_text r' \<Longrightarrow> r = r'"
  by (cases r; cases r') (simp_all add: outcome_text_def)

lemmas sample_defs = sample_user_def sample_activity_def sample_activity_location_def
  sample_activity_neither_def sample_activity_thursday_def sample_activity_bad_date_def

lemmas encodable_defs = encodable_def user_encodable_def activity_encodable_def
  str_encodable_def is_surrogate_def

lemmas op_defs = register_for_activity_def cancel_registration_def find_user_def
  find_activity_def save_data_def returning_def Let_def

lemma sample_encodable:
  "encodable \<lparr>users = [sample_user\<lparr>u_registered_activities := xs\<rparr>],
              activities = [sample_activity\<lparr>a_participants := ys\<rparr>]\<rparr>"
  by (simp add: encodable_defs sample_user_def sample_activity_def)

lemma twin_encodable:
  "encodable \<lparr>users = [sample_user\<lparr>u_registered_activities := xs\<rparr>, twin_user],
              activities = [sample_activity\<lparr>a_participants := ys\<rparr>, twin_activity]\<rparr>"
  by (simp add: encodable_defs sample_user_def sample_activity_def twin_user_def
      twin_activity_def)

lemma registered_matcher_eq:
  "registered_matcher =
     \<lparr>data = \<lparr>users = [sample_user\<lparr>u_registered_activities := [1]\<rparr>],
              activities = [sample_activity\<lparr>a_participants := [1]\<rparr>]\<rparr>,
      data_file = Stored \<lparr>users = [sample_user\<lparr>u_registered_activities := [1]\<rparr>],
                         activities = [sample_activity\<lparr>a_participants := [1]\<rparr>]\<rparr>\<rparr>"
  by (simp add: registered_matcher_def sample_matcher_def sample_user_def sample_activity_def
      op_defs encodable_defs)

text \<open>
  Claim C3, amended. \<open>register_for_activity\<close> tries in this order: user-not-found when no
  user has the id; else activity-not-found when no activity has the id; else
  already-registered when the id of the activity is in the list of the first user with
  the id. These three return the matcher unchanged. Otherwise the id of the activity is
  appended to the list of the first user with the id and the id of the user to the list
  of the first activity with the id, every other record staying as it was, and the
  document is saved: when no string of the document holds a lone surrogate the file
  holds the new document and the call returns success with the name of the activity;
  when one does, the call raises \<open>UnicodeEncodeError\<close>, the two appends stay in memory and
  the file is left as an unreadable fragment.
\<close>

theorem register_for_activity_outcomes:
  "(user_id \<notin> u_id ` set (users (data m)) \<longrightarrow>
      register_for_activity m user_id activity_id = (Inr UserNotFound, m)) \<and>
   (user_id \<in> u_id ` set (users (data m)) \<and>
    activity_id \<notin> a_id ` set (activities (data m)) \<longrightarrow>
      register_for_activity m user_id activity_id = (Inr ActivityNotFound, m)) \<and>
   (first_user (data m) user_id us_pre usr us_post \<and>
    activity_id \<in> a_id ` set (activities (data m)) \<and>
    activity_id \<in> set (u_registered_activities usr) \<longrightarrow>
      register_for_activity m user_id activity_id = (Inr AlreadyRegistered, m)) \<and>
   (first_user (data m) user_id us_pre usr us_post \<and>
    first_activity (data m) activity_id as_pre act as_post \<and>
    activity_id \<notin> set (u_registered_activities usr) \<longrightarrow>
      (let d' = \<lparr>users = us_pre @ usr\<lparr>u_registered_activities :=
                                      u_registered_activities usr @ [activity_id]\<rparr> # us_post,
                  activities = as_pre @ act\<lparr>a_participants :=
                                      a_participants act @ [user_id]\<rparr> # as_post\<rparr>
       in register_for_activity m user_id activity_id =
            (if encodable d'
             then (Inr (Success (a_name act)), \<lparr>data = d', data_file = Stored d'\<rparr>)
             else (Inl UnicodeEncodeError,
                   \<lparr>data = d', data_file = Unreadable JSONDecodeError\<rparr>))))"
proof (intro conjI impI)
  assume "user_id \<notin> u_id ` set (users (data m))"
  then show "register_for_activity m user_id activity_id = (Inr UserNotFound, m)"
    by (simp add: register_for_activity_def find_user_None_iff[symmetric])
next
  assume a: "user_id \<in> u_id ` set (users (data m)) \<and>
    activity_id \<notin> a_id ` set (activities (data m))"
  then obtain u where "find_user (data m) user_id = Some u"
    using find_user_None_iff[of "data m" user_id] by (cases "find_user (data m) user_id") auto
  with a show "register_for_activity m user_id activity_id = (Inr ActivityNotFound, m)"
    by (simp add: register_for_activity_def find_activity_None_iff[symmetric])
next
  assume a: "first_user (data m) user_id us_pre usr us_post \<and>
    activity_id \<in> a_id ` set (activities (data m)) \<and>
    activity_id \<in> set (u_registered_activities usr)"
  then have fu: "find_user (data m) user_id = Some usr"
    by (blast intro: first_user_find)
  from a obtain b where "find_activity (data m) activity_id = Some b"
    using find_activity_None_iff[of "data m" activity_id]
    by (cases "find_activity (data m) activity_id") auto
  with a fu show "register_for_activity m user_id activity_id = (Inr AlreadyRegistered, m)"
    by (simp add: register_for_activity_def)
next
  assume a: "first_user (data m) user_id us_pre usr us_post \<and>
    first_activity (data m) activity_id as_pre act as_post \<and>
    activity_id \<notin> set (u_registered_activities usr)"
  let ?fu = "\<lambda>u. u\<lparr>u_registered_activities := u_registered_activities u @ [activity_id]\<rparr>"
  let ?fa = "\<lambda>a. a\<lparr>a_participants := a_participants a @ [user_id]\<rparr>"
  from a have fu: "find_user (data m) user_id = Some usr"
    by (blast intro: first_user_find)
  from a have fa: "find_activity (data m) activity_id = Some act"
    by (blast intro: first_activity_find)
  from a have us: "update_first (\<lambda>u. u_id u = user_id) ?fu (users (data m)) = us_pre @ ?fu usr # us_post"
    by (simp add: first_user_def update_first_append)
  from a have as: "update_first (\<lambda>a. a_id a = activity_id) ?fa (activities (data m)) =
      as_pre @ ?fa act # as_post"
    by (simp add: first_activity_def update_first_append)
  from a have "register_for_activity m user_id activity_id =
      returning (Success (a_name act))
        (save_data (m\<lparr>data := \<lparr>users = us_pre @ ?fu usr # us_post, activities = as_pre @ ?fa act # as_post\<rparr>\<rparr>))"
    unfolding register_for_activity_def Let_def fu fa us as by simp
  then show "let d' = \<lparr>users = us_pre @ ?fu usr # us_post, activities = as_pre @ ?fa act # as_post\<rparr>
       in register_for_activity m user_id activity_id =
            (if encodable d'
             then (Inr (Success (a_name act)), \<lparr>data = d', data_file = Stored d'\<rparr>)
             else (Inl UnicodeEncodeError,
                   \<lparr>data = d', data_file = Unreadable JSONDecodeError\<rparr>))"
    by (simp add: save_data_result returning_def Let_def)
qed

theorem register_for_activity_outcomes_witness:
  "register_for_activity sample_matcher 2 1 = (Inr UserNotFound, sample_matcher) \<and>
   register_for_activity sample_matcher 1 2 = (Inr ActivityNotFound, sample_matcher) \<and>
   register_for_activity sample_matcher 1 1 =
     (Inr (Success (a_name sample_activity)),
      \<lparr>data = \<lparr>users = [sample_user\<lparr>u_registered_activities := [1]\<rparr>],
               activities = [sample_activity\<lparr>a_participants := [1]\<rparr>]\<rparr>,
       data_file = Stored \<lparr>users = [sample_user\<lparr>u_registered_activities := [1]\<rparr>],
                          activities = [sample_activity\<lparr>a_participants := [1]\<rparr>]\<rparr>\<rparr>) \<and>
   register_for_activity registered_matcher 1 1 = (Inr AlreadyRegistered, registered_matcher) \<and>
   register_for_activity twin_matcher 1 1 =
     (Inr (Success (a_name sample_activity)), twin_registered)"
proof -
  have nu: "2 \<notin> u_id ` set (users (data sample_matcher))"
    by (simp add: sample_matcher_def sample_user_def)
  have iu: "1 \<in> u_id ` set (users (data sample_matcher))"
    by (simp add: sample_matcher_def sample_user_def)
  have na: "2 \<notin> a_id ` set (activities (data sample_matcher))"
    by (simp add: sample_matcher_def sample_activity_def)
  have fu: "first_user (data sample_matcher) 1 [] sample_user []"
    by (simp add: first_user_def sample_matcher_def sample_user_def)
  have fa: "first_activity (data sample_matcher) 1 [] sample_activity []"
    by (simp add: first_activity_def sample_matcher_def sample_activity_def)
  have nr: "1 \<notin> set (u_registered_activities sample_user)"
    by (simp add: sample_user_def)
  have fu': "first_user (data registered_matcher) 1 []
      (sample_user\<lparr>u_registered_activities := [1]\<rparr>) []"
    by (simp add: first_user_def registered_matcher_eq sample_user_def)
  have ia': "1 \<in> a_id ` set (activities (data registered_matcher))"
    by (simp add: registered_matcher_eq sample_activity_def)
  from register_for_activity_outcomes[where user_id = 2 and m = sample_matcher] nu
  have 1: "register_for_activity sample_matcher 2 1 = (Inr UserNotFound, sample_matcher)"
    by blast
  from register_for_activity_outcomes[where user_id = 1 and m = sample_matcher
      and activity_id = 2] iu na
  have 2: "register_for_activity sample_matcher 1 2 = (Inr ActivityNotFound, sample_matcher)"
    by blast
  from register_for_activity_outcomes[where user_id = 1 and m = sample_matcher
      and activity_id = 1 and us_pre = "[]" and usr = sample_user and us_post = "[]"
      and as_pre = "[]" and act = sample_activity and as_post = "[]"] fu fa nr
  have 3: "register_for_activity sample_matcher 1 1 =
     (Inr (Success (a_name sample_activity)),
      \<lparr>data = \<lparr>users = [sample_user\<lparr>u_registered_activities := [1]\<rparr>],
               activities = [sample_activity\<lparr>a_participants := [1]\<rparr>]\<rparr>,
       data_file = Stored \<lparr>users = [sample_user\<lparr>u_registered_activities := [1]\<rparr>],
                          activities = [sample_activity\<lparr>a_participants := [1]\<rparr>]\<rparr>\<rparr>)"
    by (simp add: Let_def sample_encodable) (simp add: sample_user_def sample_activity_def)
  from register_for_activity_outcomes[where user_id = 1 and m = registered_matcher
      and activity_id = 1 and us_pre = "[]" and usr = "sample_user\<lparr>u_registered_activities := [1]\<rparr>"
      and us_post = "[]"] fu' ia'
  have 4: "register_for_activity registered_matcher 1 1 = (Inr AlreadyRegistered, registered_matcher)"
    by simp
  have tu: "first_user (data twin_matcher) 1 [] sample_user [twin_user]"
    by (simp add: first_user_def twin_matcher_def sample_user_def)
  have ta: "first_activity (data twin_matcher) 1 [] sample_activity [twin_activity]"
    by (simp add: first_activity_def twin_matcher_def sample_activity_def)
  from register_for_activity_outcomes[where user_id = 1 and m = twin_matcher
      and activity_id = 1 and us_pre = "[]" and usr = sample_user and us_post = "[twin_user]"
      and as_pre = "[]" and act = sample_activity and as_post = "[twin_activity]"] tu ta nr
  have 5: "register_for_activity twin_matcher 1 1 =
     (Inr (Success (a_name sample_activity)), twin_registered)"
    by (simp add: Let_def twin_encodable) (simp add: twin_registered_def sample_user_def
        sample_activity_def)
  from 1 2 3 4 5 show ?thesis by simp
qed

text \<open>
  Claim C3 as stated fails: with a description that holds a lone surrogate, which a
  stored document can hold, the call for an existing user and activity returns none of
  the four outcomes. It raises \<open>UnicodeEncodeError\<close> out of the save, after both appends,
  and leaves the file unreadable.
\<close>

theorem register_raises_on_surrogate:
  "register_for_activity surrogate_matcher 1 1 = (Inl UnicodeEncodeError, surrogate_registered)"
  by (simp add: surrogate_matcher_def surrogate_document_def surrogate_registered_def
      sample_user_def sample_activity_def op_defs encodable_defs)

text \<open>
  Claim C5. When no stored user has the id, \<open>register_for_activity\<close> answers
  user-not-found and returns the matcher unchanged: the users, the activities and the
  file are what they were.
\<close>

theorem register_unknown_user:
  assumes "user_id \<notin> u_id ` set (users (data m))"
  shows "register_for_activity m user_id activity_id = (Inr UserNotFound, m)"
  using assms by (simp add: register_for_activity_def find_user_None_iff[symmetric])

theorem register_unknown_user_witness:
  "(2::int) \<notin> u_id ` set (users (data sample_matcher)) \<and>
   register_for_activity sample_matcher 2 1 = (Inr UserNotFound, sample_matcher)"
proof -
  have h: "(2::int) \<notin> u_id ` set (users (data sample_matcher))"
    by (simp add: sample_matcher_def sample_user_def)
  from register_unknown_user[OF h] h show ?thesis by simp
qed

section \<open>Matching: the rule and the dates\<close>

lemma str_in_sublist: "str_in x y \<longleftrightarrow> sublist x y"
  by (induction y) (simp_all add: sublist_Cons_right)

lemma chinese_days_Some: "chinese_days d = Some en \<longleftrightarrow> (d, en) \<in> set chinese_days_items"
proof -
  have "distinct (map fst chinese_days_items)"
    by (simp add: chinese_days_items_def)
  then show ?thesis
    by (simp add: chinese_days_def)
qed

lemma day_matched_iff:
  "day_matched rt wd days \<longleftrightarrow>
     (\<exists>d \<in> set days. ci_substring rt d wd \<or>
        (\<exists>en. (d, en) \<in> set chinese_days_items \<and> ci_substring rt en wd))"
proof (induction days)
  case Nil
  then show ?case by simp
next
  case (Cons d days)
  have c: "(case chinese_days d of None \<Rightarrow> False
            | Some en \<Rightarrow> str_in (str_lower rt en) (str_lower rt wd)) \<longleftrightarrow>
           (\<exists>en. (d, en) \<in> set chinese_days_items \<and> ci_substring rt en wd)"
    by (cases "chinese_days d")
       (auto simp: ci_substring_def str_in_sublist chinese_days_Some[symmetric])
  show ?case
    using Cons.IH c by (auto simp: ci_substring_def str_in_sublist)
qed

lemma match_loop_valid:
  assumes "\<forall>a \<in> set acts. valid_date rt (a_date a)"
  shows "match_loop rt usr acts matched = Inr (matched @ filter (rule_holds rt usr) acts)"
  using assms
proof (induction acts arbitrary: matched)
  case Nil
  then show ?case by simp
next
  case (Cons act acts)
  from Cons.prems obtain dt where dt: "strptime rt (a_date act) = Inr dt"
    by (auto simp: valid_date_def)
  from Cons.prems have rest: "\<forall>a \<in> set acts. valid_date rt (a_date a)" by simp
  have rule: "rule_holds rt usr act \<longleftrightarrow>
      day_matched rt (strftime_A dt) (u_available_days usr) \<and>
      (a_category act \<in> set (u_preferred_categories usr) \<or> a_location act = u_location usr)"
    by (simp add: rule_holds_def day_match_def day_matched_iff weekday_name_of_def dt
        category_match_def location_match_def)
  show ?case
    by (simp add: dt Let_def Cons.IH[OF rest] rule)
qed

lemma match_loop_invalid:
  assumes "\<exists>a \<in> set acts. \<not> valid_date rt (a_date a)"
  shows "\<exists>e a. a \<in> set acts \<and> strptime rt (a_date a) = Inl e \<and>
               match_loop rt usr acts matched = Inl e"
  using assms
proof (induction acts arbitrary: matched)
  case Nil
  then show ?case by simp
next
  case (Cons act acts)
  show ?case
  proof (cases "strptime rt (a_date act)")
    case (Inl e)
    then have "match_loop rt usr (act # acts) matched = Inl e" by simp
    with Inl show ?thesis by auto
  next
    case (Inr dt)
    then have "valid_date rt (a_date act)" by (simp add: valid_date_def)
    with Cons.prems have "\<exists>a \<in> set acts. \<not> valid_date rt (a_date a)" by auto
    from Cons.IH[OF this] obtain e a where
      h: "a \<in> set acts" "strptime rt (a_date a) = Inl e"
         "match_loop rt usr acts
            (if day_matched rt (strftime_A dt) (u_available_days usr) \<and>
                (a_category act \<in> set (u_preferred_categories usr) \<or>
                 a_location act = u_location usr)
             then matched @ [act] else matched) = Inl e"
      by blast
    from h(3) Inr have "match_loop rt usr (act # acts) matched = Inl e"
      by (simp add: Let_def)
    with h(1,2) show ?thesis by auto
  qed
qed


lemmas runtime_defs = cpython_ascii_def strptime_ascii_def parse_month_def parse_day_def
  is_digit_def is_digit19_def days_in_month_def is_leap_def ascii_lower_def


lemma wednesday_date:
  "strptime cpython_ascii [50, 48, 50, 52, 45, 48, 49, 45, 48, 51] =
     Inr \<lparr>dt_year = 2024, dt_month = 1, dt_day = 3\<rparr>"
  by (simp add: runtime_defs)

lemma thursday_date:
  "strptime cpython_ascii [50, 48, 50, 52, 45, 48, 49, 45, 48, 52] =
     Inr \<lparr>dt_year = 2024, dt_month = 1, dt_day = 4\<rparr>"
  by (simp add: runtime_defs)

lemma bad_date: "strptime cpython_ascii [50, 48, 50, 52, 45, 48, 50, 45, 51, 48] = Inl ValueError"
  by (simp add: runtime_defs)










lemma sample_valid:
  "valid_date cpython_ascii (a_date sample_activity)"
  "valid_date cpython_ascii (a_date sample_activity_location)"
  "valid_date cpython_ascii (a_date sample_activity_neither)"
  "valid_date cpython_ascii (a_date sample_activity_thursday)"
  "\<not> valid_date cpython_ascii (a_date sample_activity_bad_date)"
  by (simp_all add: valid_date_def sample_defs wednesday_date thursday_date bad_date)



text \<open>
  Claim C9. For an existing user: when the date of some stored activity is not accepted
  by the conversion, \<open>match_activities\<close> ends with the exception the conversion raised
  for an activity of the store; when every date is accepted, it returns a list.
\<close>

theorem match_activities_dates:
  assumes "user_id \<in> u_id ` set (users (data m))"
  shows "((\<exists>a \<in> set (activities (data m)). \<not> valid_date rt (a_date a)) \<longrightarrow>
            (\<exists>e a. a \<in> set (activities (data m)) \<and> strptime rt (a_date a) = Inl e \<and>
                   fst (match_activities rt m user_id) = Inl e)) \<and>
         ((\<forall>a \<in> set (activities (data m)). valid_date rt (a_date a)) \<longrightarrow>
            (\<exists>r. fst (match_activities rt m user_id) = Inr r))"
proof -
  from assms obtain usr where u: "find_user (data m) user_id = Some usr"
    using find_user_None_iff[of "data m" user_id] by (cases "find_user (data m) user_id") auto
  show ?thesis
  proof (intro conjI impI)
    assume "\<exists>a \<in> set (activities (data m)). \<not> valid_date rt (a_date a)"
    from match_loop_invalid[OF this, of usr "[]"] u
    show "\<exists>e a. a \<in> set (activities (data m)) \<and> strptime rt (a_date a) = Inl e \<and>
                fst (match_activities rt m user_id) = Inl e"
      by (simp add: match_activities_def)
  next
    assume "\<forall>a \<in> set (activities (data m)). valid_date rt (a_date a)"
    from match_loop_valid[OF this, of usr "[]"] u
    show "\<exists>r. fst (match_activities rt m user_id) = Inr r"
      by (simp add: match_activities_def)
  qed
qed

theorem match_activities_dates_witness:
  "1 \<in> u_id ` set (users (data bad_date_matcher)) \<and>
   \<not> valid_date cpython_ascii (a_date sample_activity_bad_date) \<and>
   fst (match_activities cpython_ascii bad_date_matcher 1) = Inl ValueError \<and>
   1 \<in> u_id ` set (users (data rule_matcher)) \<and>
   (\<exists>r. fst (match_activities cpython_ascii rule_matcher 1) = Inr r)"
proof -
  have u: "1 \<in> u_id ` set (users (data bad_date_matcher))"
    by (simp add: bad_date_matcher_def sample_user_def)
  have u': "1 \<in> u_id ` set (users (data rule_matcher))"
    by (simp add: rule_matcher_def sample_user_def)
  have bad: "\<exists>a \<in> set (activities (data bad_date_matcher)). \<not> valid_date cpython_ascii (a_date a)"
    by (simp add: bad_date_matcher_def sample_valid)
  have good: "\<forall>a \<in> set (activities (data rule_matcher)). valid_date cpython_ascii (a_date a)"
    by (simp add: rule_matcher_def sample_valid)
  have only: "\<And>a e. a \<in> set (activities (data bad_date_matcher)) \<Longrightarrow>
      strptime cpython_ascii (a_date a) = Inl e \<Longrightarrow> e = ValueError"
    by (auto simp: bad_date_matcher_def sample_defs wednesday_date bad_date)
  from match_activities_dates[OF u, of cpython_ascii] bad only
  have 1: "fst (match_activities cpython_ascii bad_date_matcher 1) = Inl ValueError"
    by blast
  from match_activities_dates[OF u', of cpython_ascii] good
  have 2: "\<exists>r. fst (match_activities cpython_ascii rule_matcher 1) = Inr r"
    by blast
  from u u' 1 2 sample_valid(5) show ?thesis by simp
qed

section \<open>Creation: the ids\<close>

lemma sorted_ids: "sorted_wrt (<) (map int [1..<Suc n])"
  by (simp add: sorted_wrt_map del: upt_Suc)

lemma distinct_ids: "distinct (map int [1..<Suc n])"
  by (simp add: distinct_map del: upt_Suc)

lemma ids_by_count_add_activity:
  "ids_by_count (data m) \<Longrightarrow> ids_by_count (data (snd (add_activity m n c l d t ds)))"
  by (simp add: ids_by_count_def add_activity_def Let_def snd_returning data_save_data)

lemma ids_by_count_register_user:
  "ids_by_count (data m) \<Longrightarrow> ids_by_count (data (snd (register_user m n l cs ds)))"
  by (simp add: ids_by_count_def register_user_def Let_def snd_returning data_save_data)

lemma ids_by_count_apply:
  "ids_by_count (data m) \<Longrightarrow> ids_by_count (data (apply_creation m c))"
  by (cases c) (simp_all add: ids_by_count_add_activity ids_by_count_register_user)

lemma ids_by_count_run:
  "ids_by_count (data m) \<Longrightarrow> ids_by_count (data (run_creations m cs))"
  unfolding run_creations_def
  by (induction cs arbitrary: m) (simp_all add: ids_by_count_apply)

lemma prefix_apply:
  "prefix (users (data m)) (users (data (apply_creation m c))) \<and>
   prefix (activities (data m)) (activities (data (apply_creation m c)))"
  by (cases c)
     (simp_all add: add_activity_def register_user_def Let_def snd_returning data_save_data)

lemma prefix_run:
  "prefix (users (data m)) (users (data (run_creations m cs))) \<and>
   prefix (activities (data m)) (activities (data (run_creations m cs)))"
  unfolding run_creations_def
proof (induction cs arbitrary: m)
  case Nil
  then show ?case by simp
next
  case (Cons c cs)
  from prefix_apply[of m c] Cons.IH[of "apply_creation m c"]
  show ?case by (auto intro: prefix_order.trans)
qed

text \<open>
  Claim C7. In a document whose ids are the positions counted from one (the empty
  document is one), every sequence of \<open>register_user\<close> and \<open>add_activity\<close> calls leaves
  them so: within the users and within the activities the ids are strictly increasing in
  creation order and pairwise distinct, the records already there keep their place and
  id, and each call appends one record whose id is the count of records of its kind plus
  one, which is the record it returns when the save does not raise.
\<close>

theorem creation_ids:
  assumes "ids_by_count (data m)"
  shows "ids_by_count (data (run_creations m cs)) \<and>
         sorted_wrt (<) (map u_id (users (data (run_creations m cs)))) \<and>
         distinct (map u_id (users (data (run_creations m cs)))) \<and>
         sorted_wrt (<) (map a_id (activities (data (run_creations m cs)))) \<and>
         distinct (map a_id (activities (data (run_creations m cs)))) \<and>
         prefix (users (data m)) (users (data (run_creations m cs))) \<and>
         prefix (activities (data m)) (activities (data (run_creations m cs))) \<and>
         (\<exists>usr. u_id usr = int (length (users (data m))) + 1 \<and>
            users (data (snd (register_user m n l ps ds))) = users (data m) @ [usr] \<and>
            (fst (register_user m n l ps ds) = Inr usr \<or>
             fst (register_user m n l ps ds) = Inl UnicodeEncodeError)) \<and>
         (\<exists>act. a_id act = int (length (activities (data m))) + 1 \<and>
            activities (data (snd (add_activity m n c l d t de))) = activities (data m) @ [act] \<and>
            (fst (add_activity m n c l d t de) = Inr act \<or>
             fst (add_activity m n c l d t de) = Inl UnicodeEncodeError))"
proof -
  from ids_by_count_run[OF assms, of cs]
  have i: "ids_by_count (data (run_creations m cs))" .
  then have e:
    "map u_id (users (data (run_creations m cs))) =
       map int [1..<Suc (length (users (data (run_creations m cs))))]"
    "map a_id (activities (data (run_creations m cs))) =
       map int [1..<Suc (length (activities (data (run_creations m cs))))]"
    by (simp_all only: ids_by_count_def)
  have "sorted_wrt (<) (map u_id (users (data (run_creations m cs))))"
    "distinct (map u_id (users (data (run_creations m cs))))"
    "sorted_wrt (<) (map a_id (activities (data (run_creations m cs))))"
    "distinct (map a_id (activities (data (run_creations m cs))))"
    by (simp_all only: e sorted_ids distinct_ids)
  moreover have "\<exists>usr. u_id usr = int (length (users (data m))) + 1 \<and>
      users (data (snd (register_user m n l ps ds))) = users (data m) @ [usr] \<and>
      (fst (register_user m n l ps ds) = Inr usr \<or>
       fst (register_user m n l ps ds) = Inl UnicodeEncodeError)"
    by (simp add: register_user_def Let_def returning_def save_data_def)
  moreover have "\<exists>act. a_id act = int (length (activities (data m))) + 1 \<and>
      activities (data (snd (add_activity m n c l d t de))) = activities (data m) @ [act] \<and>
      (fst (add_activity m n c l d t de) = Inr act \<or>
       fst (add_activity m n c l d t de) = Inl UnicodeEncodeError)"
    by (simp add: add_activity_def Let_def returning_def save_data_def)
  ultimately show ?thesis
    using i prefix_run[of m cs] by simp
qed

theorem creation_ids_witness:
  "ids_by_count (data (init_matcher Absent)) \<and>
   map u_id (users (data (run_creations (init_matcher Absent) sample_creations))) = [1, 2] \<and>
   map a_id (activities (data (run_creations (init_matcher Absent) sample_creations))) = [1] \<and>
   ids_by_count (data (run_creations (init_matcher Absent) sample_creations))"
proof -
  have h: "ids_by_count (data (init_matcher Absent))"
    by (simp add: ids_by_count_def init_matcher_def load_data_def empty_document_def)
  have u: "length (users (data (run_creations (init_matcher Absent) sample_creations))) = 2"
    by (simp add: run_creations_def sample_creations_def init_matcher_def load_data_def
        empty_document_def register_user_def add_activity_def Let_def snd_returning
        data_save_data)
  have a: "length (activities (data (run_creations (init_matcher Absent) sample_creations))) = 1"
    by (simp add: run_creations_def sample_creations_def init_matcher_def load_data_def
        empty_document_def register_user_def add_activity_def Let_def snd_returning
        data_save_data)
  from creation_ids[OF h, of sample_creations]
  have i: "ids_by_count (data (run_creations (init_matcher Absent) sample_creations))"
    by simp
  from i u a h show ?thesis
    by (simp add: ids_by_count_def upt_rec)
qed

section \<open>Registration and cancellation: the links\<close>

lemma map_key_update_first:
  "(\<And>x. key (f x) = key x) \<Longrightarrow> map key (update_first P f xs) = map key xs"
  by (induction xs) auto

lemma set_update_first:
  assumes "distinct (map key xs)" and "find (\<lambda>y. key y = k) xs = Some x"
  shows "set (update_first (\<lambda>y. key y = k) f xs) = insert (f x) (set xs - {x})"
proof -
  from update_first_split[OF assms(2), of f] obtain ys zs where
    h: "xs = ys @ x # zs" "update_first (\<lambda>y. key y = k) f xs = ys @ f x # zs"
    by blast
  from assms(1) have "distinct xs" by (simp add: distinct_map)
  with h(1) have "x \<notin> set ys" "x \<notin> set zs" by auto
  with h show ?thesis by auto
qed

lemma find_SomeD: "find P xs = Some x \<Longrightarrow> x \<in> set xs \<and> P x"
  by (auto simp: find_Some_iff)

lemma symmetric_replace:
  assumes sym: "\<forall>u \<in> U. \<forall>a \<in> A.
        a_id a \<in> set (u_registered_activities u) \<longleftrightarrow> u_id u \<in> set (a_participants a)"
    and iu: "inj_on u_id U" and ia: "inj_on a_id A"
    and mu: "usr \<in> U" and ma: "act \<in> A"
    and ku: "u_id usr' = u_id usr" and ka: "a_id act' = a_id act"
    and ru: "\<forall>x. x \<noteq> a_id act \<longrightarrow>
        (x \<in> set (u_registered_activities usr') \<longleftrightarrow> x \<in> set (u_registered_activities usr))"
    and ra: "\<forall>x. x \<noteq> u_id usr \<longrightarrow>
        (x \<in> set (a_participants act') \<longleftrightarrow> x \<in> set (a_participants act))"
    and both: "a_id act \<in> set (u_registered_activities usr') \<longleftrightarrow>
        u_id usr \<in> set (a_participants act')"
  shows "\<forall>u \<in> insert usr' (U - {usr}). \<forall>a \<in> insert act' (A - {act}).
        a_id a \<in> set (u_registered_activities u) \<longleftrightarrow> u_id u \<in> set (a_participants a)"
proof (intro ballI)
  fix u a
  assume u: "u \<in> insert usr' (U - {usr})" and a: "a \<in> insert act' (A - {act})"
  show "a_id a \<in> set (u_registered_activities u) \<longleftrightarrow> u_id u \<in> set (a_participants a)"
  proof (cases "u = usr'")
    case True
    note u' = this
    show ?thesis
    proof (cases "a = act'")
      case True
      with u' both ku ka show ?thesis by simp
    next
      case False
      with a have a': "a \<in> A" "a \<noteq> act" by auto
      with ia ma have "a_id a \<noteq> a_id act" by (auto dest: inj_onD)
      with ru have "a_id a \<in> set (u_registered_activities usr') \<longleftrightarrow>
          a_id a \<in> set (u_registered_activities usr)" by simp
      also from sym mu a'(1) have "\<dots> \<longleftrightarrow> u_id usr \<in> set (a_participants a)" by simp
      finally show ?thesis using u' ku by simp
    qed
  next
    case False
    with u have u': "u \<in> U" "u \<noteq> usr" by auto
    with iu mu have n: "u_id u \<noteq> u_id usr" by (auto dest: inj_onD)
    show ?thesis
    proof (cases "a = act'")
      case True
      from sym u'(1) ma have "a_id act \<in> set (u_registered_activities u) \<longleftrightarrow>
          u_id u \<in> set (a_participants act)" by simp
      also from ra n have "\<dots> \<longleftrightarrow> u_id u \<in> set (a_participants act')" by simp
      finally show ?thesis using True ka by simp
    next
      case False
      with a have "a \<in> A" by auto
      with sym u'(1) show ?thesis by simp
    qed
  qed
qed


lemma register_keeps_consistent:
  assumes "consistent (data m)"
  shows "consistent (data (snd (register_for_activity m user_id activity_id)))"
proof (cases "find_user (data m) user_id")
  case None
  with assms show ?thesis by (simp add: register_for_activity_def)
next
  case (Some usr)
  note fu = this
  show ?thesis
  proof (cases "find_activity (data m) activity_id")
    case None
    with fu assms show ?thesis by (simp add: register_for_activity_def)
  next
    case (Some act)
    note fa = this
    show ?thesis
    proof (cases "activity_id \<in> set (u_registered_activities usr)")
      case True
      with fu fa assms show ?thesis by (simp add: register_for_activity_def)
    next
      case False
      let ?fu = "\<lambda>u. u\<lparr>u_registered_activities := u_registered_activities u @ [activity_id]\<rparr>"
      let ?fa = "\<lambda>a. a\<lparr>a_participants := a_participants a @ [user_id]\<rparr>"
      let ?us = "update_first (\<lambda>u. u_id u = user_id) ?fu (users (data m))"
      let ?as = "update_first (\<lambda>a. a_id a = activity_id) ?fa (activities (data m))"
      from fu fa False have d': "data (snd (register_for_activity m user_id activity_id)) =
          \<lparr>users = ?us, activities = ?as\<rparr>"
        by (simp add: register_for_activity_def Let_def snd_returning data_save_data)
      from assms have sym: "symmetric (data m)"
        and du: "distinct (map u_id (users (data m)))"
        and da: "distinct (map a_id (activities (data m)))"
        and nd: "no_duplicate_links (data m)"
        by (simp_all add: consistent_def unique_ids_def)
      from fu have fu': "find (\<lambda>u. u_id u = user_id) (users (data m)) = Some usr"
        by (simp add: find_user_def)
      from fa have fa': "find (\<lambda>a. a_id a = activity_id) (activities (data m)) = Some act"
        by (simp add: find_activity_def)
      from find_SomeD[OF fu'] have mu: "usr \<in> set (users (data m))" and ku: "u_id usr = user_id"
        by simp_all
      from find_SomeD[OF fa'] have ma: "act \<in> set (activities (data m))" and ka: "a_id act = activity_id"
        by simp_all
      have su: "set ?us = insert (?fu usr) (set (users (data m)) - {usr})"
        by (rule set_update_first[OF du fu'])
      have sa: "set ?as = insert (?fa act) (set (activities (data m)) - {act})"
        by (rule set_update_first[OF da fa'])
      have ku': "map u_id ?us = map u_id (users (data m))"
        by (rule map_key_update_first) simp
      have ka': "map a_id ?as = map a_id (activities (data m))"
        by (rule map_key_update_first) simp
      from sym mu ma ku ka False have np: "user_id \<notin> set (a_participants act)"
        by (auto simp: symmetric_def)
      from du have iu: "inj_on u_id (set (users (data m)))" by (simp add: distinct_map)
      from da have ia: "inj_on a_id (set (activities (data m)))" by (simp add: distinct_map)
      from sym have sym0: "\<forall>u \<in> set (users (data m)). \<forall>a \<in> set (activities (data m)).
          a_id a \<in> set (u_registered_activities u) \<longleftrightarrow> u_id u \<in> set (a_participants a)"
        by (simp add: symmetric_def)
      have "\<forall>u \<in> insert (?fu usr) (set (users (data m)) - {usr}).
            \<forall>a \<in> insert (?fa act) (set (activities (data m)) - {act}).
          a_id a \<in> set (u_registered_activities u) \<longleftrightarrow> u_id u \<in> set (a_participants a)"
        by (rule symmetric_replace[OF sym0 iu ia mu ma]) (simp_all add: ku ka)
      then have 1: "symmetric \<lparr>users = ?us, activities = ?as\<rparr>"
        by (simp add: symmetric_def su sa)
      from du da ku' ka' have 2: "unique_ids \<lparr>users = ?us, activities = ?as\<rparr>"
        by (simp add: unique_ids_def)
      from nd mu ma False np have 3: "no_duplicate_links \<lparr>users = ?us, activities = ?as\<rparr>"
        by (simp add: no_duplicate_links_def su sa)
      from 1 2 3 show ?thesis by (simp add: d' consistent_def)
    qed
  qed
qed


lemma cancel_registration_save:
  assumes "find_user (data m) user_id = Some usr" and "k < length (activities (data m))"
  shows "cancel_registration m user_id k =
     save_data (m\<lparr>data :=
        \<lparr>users = update_first (\<lambda>u. u_id u = user_id)
                   (\<lambda>u. u\<lparr>u_registered_activities :=
                            remove1 (a_id (activities (data m) ! k)) (u_registered_activities u)\<rparr>)
                   (users (data m)),
         activities = (activities (data m))
           [k := (activities (data m) ! k)
              \<lparr>a_participants := remove1 user_id (a_participants (activities (data m) ! k))\<rparr>]\<rparr>\<rparr>)"
proof -
  have u: "(\<lambda>u. if a_id (activities (data m) ! k) \<in> set (u_registered_activities u)
        then u\<lparr>u_registered_activities :=
                 remove1 (a_id (activities (data m) ! k)) (u_registered_activities u)\<rparr>
        else u) =
      (\<lambda>u. u\<lparr>u_registered_activities :=
                 remove1 (a_id (activities (data m) ! k)) (u_registered_activities u)\<rparr>)"
    by (rule ext) (simp add: remove1_idem)
  have a: "(if user_id \<in> set (a_participants (activities (data m) ! k))
        then (activities (data m) ! k)
          \<lparr>a_participants := remove1 user_id (a_participants (activities (data m) ! k))\<rparr>
        else activities (data m) ! k) =
      (activities (data m) ! k)
          \<lparr>a_participants := remove1 user_id (a_participants (activities (data m) ! k))\<rparr>"
    by (simp add: remove1_idem)
  from assms(2) have nk: "\<not> length (activities (data m)) \<le> k" by simp
  show ?thesis
    unfolding cancel_registration_def Let_def assms(1) if_not_P[OF nk] option.case u a
    by (rule refl)
qed

lemma cancel_keeps_consistent:
  assumes "consistent (data m)"
  shows "consistent (data (snd (cancel_registration m user_id k)))"
proof (cases "find_user (data m) user_id")
  case None
  with assms show ?thesis by (simp add: cancel_registration_def)
next
  case (Some usr)
  note fu = this
  show ?thesis
  proof (cases "k < length (activities (data m))")
    case False
    with fu assms show ?thesis by (simp add: cancel_registration_def)
  next
    case True
    note k = this
    define act where "act = activities (data m) ! k"
    let ?fu = "\<lambda>u. u\<lparr>u_registered_activities := remove1 (a_id act) (u_registered_activities u)\<rparr>"
    let ?act' = "act\<lparr>a_participants := remove1 user_id (a_participants act)\<rparr>"
    let ?us = "update_first (\<lambda>u. u_id u = user_id) ?fu (users (data m))"
    let ?as = "(activities (data m))[k := ?act']"
    from cancel_registration_save[OF fu k]
    have d': "data (snd (cancel_registration m user_id k)) = \<lparr>users = ?us, activities = ?as\<rparr>"
      by (simp add: data_save_data act_def)
    from assms have sym: "symmetric (data m)"
      and du: "distinct (map u_id (users (data m)))"
      and da: "distinct (map a_id (activities (data m)))"
      and nd: "no_duplicate_links (data m)"
      by (simp_all add: consistent_def unique_ids_def)
    from fu have fu': "find (\<lambda>u. u_id u = user_id) (users (data m)) = Some usr"
      by (simp add: find_user_def)
    from find_SomeD[OF fu'] have mu: "usr \<in> set (users (data m))" and ku: "u_id usr = user_id"
      by simp_all
    from k have ma: "act \<in> set (activities (data m))" by (simp add: act_def)
    from nd mu have dr: "distinct (u_registered_activities usr)"
      by (simp add: no_duplicate_links_def)
    from nd ma have dp: "distinct (a_participants act)"
      by (simp add: no_duplicate_links_def)
    have su: "set ?us = insert (?fu usr) (set (users (data m)) - {usr})"
      by (rule set_update_first[OF du fu'])
    from da have "distinct (activities (data m))" by (simp add: distinct_map)
    with k have sa: "set ?as = insert ?act' (set (activities (data m)) - {act})"
      by (simp add: set_update_distinct act_def)
    have ku': "map u_id ?us = map u_id (users (data m))"
      by (rule map_key_update_first) simp
    from k have ka': "map a_id ?as = map a_id (activities (data m))"
      by (simp add: map_update act_def list_update_same_conv)
    from du have iu: "inj_on u_id (set (users (data m)))" by (simp add: distinct_map)
    from da have ia: "inj_on a_id (set (activities (data m)))" by (simp add: distinct_map)
    from sym have sym0: "\<forall>u \<in> set (users (data m)). \<forall>a \<in> set (activities (data m)).
        a_id a \<in> set (u_registered_activities u) \<longleftrightarrow> u_id u \<in> set (a_participants a)"
      by (simp add: symmetric_def)
    have "\<forall>u \<in> insert (?fu usr) (set (users (data m)) - {usr}).
          \<forall>a \<in> insert ?act' (set (activities (data m)) - {act}).
        a_id a \<in> set (u_registered_activities u) \<longleftrightarrow> u_id u \<in> set (a_participants a)"
      by (rule symmetric_replace[OF sym0 iu ia mu ma]) (use dr dp in \<open>auto simp: ku\<close>)
    then have 1: "symmetric \<lparr>users = ?us, activities = ?as\<rparr>"
      by (simp only: symmetric_def su sa document.simps)
    from du da ku' ka' have 2: "unique_ids \<lparr>users = ?us, activities = ?as\<rparr>"
      by (simp add: unique_ids_def)
    from nd mu ma dr dp have 3: "no_duplicate_links \<lparr>users = ?us, activities = ?as\<rparr>"
      by (simp add: no_duplicate_links_def su sa)
    from 1 2 3 show ?thesis by (simp add: d' consistent_def)
  qed
qed

lemma apply_link_call_consistent:
  "consistent (data m) \<Longrightarrow> consistent (data (apply_link_call m c))"
  by (cases c) (simp_all add: register_keeps_consistent cancel_keeps_consistent)

lemma run_link_calls_consistent:
  "consistent (data m) \<Longrightarrow> consistent (data (run_link_calls m cs))"
  unfolding run_link_calls_def
  by (induction cs arbitrary: m) (simp_all add: apply_link_call_consistent)

text \<open>
  Claim C2, amended. Starting from a document that is symmetric, has unique ids and holds
  no id twice in a list of links, every sequence of registrations and cancellations ends
  in such a document: for every user and activity, the activity's id is in the user's
  list exactly when the user's id is in the activity's list.
\<close>

theorem link_calls_keep_symmetry:
  assumes "symmetric (data m)" and "unique_ids (data m)" and "no_duplicate_links (data m)"
  shows "symmetric (data (run_link_calls m cs)) \<and>
         unique_ids (data (run_link_calls m cs)) \<and>
         no_duplicate_links (data (run_link_calls m cs))"
proof -
  from assms have "consistent (data m)" by (simp add: consistent_def)
  then have "consistent (data (run_link_calls m cs))" by (rule run_link_calls_consistent)
  then show ?thesis by (simp add: consistent_def)
qed


lemma sample_calls_run: "run_link_calls sample_matcher sample_calls = registered_matcher"
  by (simp add: run_link_calls_def sample_calls_def registered_matcher_def sample_matcher_def
      sample_user_def sample_activity_def op_defs encodable_defs)

theorem link_calls_keep_symmetry_witness:
  "symmetric (data sample_matcher) \<and> unique_ids (data sample_matcher) \<and>
   no_duplicate_links (data sample_matcher) \<and>
   run_link_calls sample_matcher sample_calls = registered_matcher \<and>
   symmetric (data registered_matcher)"
proof -
  have h1: "symmetric (data sample_matcher)"
    by (simp add: symmetric_def sample_matcher_def sample_user_def sample_activity_def)
  have h2: "unique_ids (data sample_matcher)"
    by (simp add: unique_ids_def sample_matcher_def)
  have h3: "no_duplicate_links (data sample_matcher)"
    by (simp add: no_duplicate_links_def sample_matcher_def sample_user_def sample_activity_def)
  from link_calls_keep_symmetry[OF h1 h2 h3, of sample_calls]
  have "symmetric (data registered_matcher)"
    by (simp add: sample_calls_run)
  with h1 h2 h3 sample_calls_run show ?thesis by simp
qed


text \<open>
  Claim C2 as stated fails: a symmetric document with unique ids in which the user
  holds the activity twice is no longer symmetric after one cancellation, because
  \<open>list.remove\<close> deletes one occurrence on each side.
\<close>


theorem unregister_breaks_symmetry:
  "symmetric (data duplicate_matcher) \<and> unique_ids (data duplicate_matcher) \<and>
   \<not> symmetric (data (run_link_calls duplicate_matcher [Unregister 1 0]))"
  by (simp add: symmetric_def unique_ids_def run_link_calls_def duplicate_matcher_def
      sample_user_def sample_activity_def op_defs encodable_defs)






lemma remove1_at_most_once: "count_list xs x \<le> 1 \<Longrightarrow> x \<notin> set (remove1 x xs)"
  by (induction xs) (auto simp: count_list_0_iff split: if_splits)

lemma cancel_registration_first:
  assumes "first_user (data m) user_id us_pre usr us_post"
    and "k < length (activities (data m))"
  shows "cancel_registration m user_id k =
     save_data (m\<lparr>data :=
        \<lparr>users = us_pre @ usr\<lparr>u_registered_activities :=
                     remove1 (a_id (activities (data m) ! k)) (u_registered_activities usr)\<rparr>
                   # us_post,
         activities = (activities (data m))
           [k := (activities (data m) ! k)
              \<lparr>a_participants := remove1 user_id (a_participants (activities (data m) ! k))\<rparr>]\<rparr>\<rparr>)"
proof -
  from assms(1) have fu: "find_user (data m) user_id = Some usr"
    by (rule first_user_find)
  from assms(1) have us: "update_first (\<lambda>u. u_id u = user_id)
      (\<lambda>u. u\<lparr>u_registered_activities :=
               remove1 (a_id (activities (data m) ! k)) (u_registered_activities u)\<rparr>)
      (users (data m)) =
      us_pre @ usr\<lparr>u_registered_activities :=
                 remove1 (a_id (activities (data m) ! k)) (u_registered_activities usr)\<rparr> # us_post"
    by (simp add: first_user_def update_first_append)
  show ?thesis
    unfolding cancel_registration_save[OF fu assms(2)] us by (rule refl)
qed

text \<open>
  Claim C6, amended. For an existing user and an activity of the store, cancelling
  deletes the first occurrence of the activity's id from the list of the first user with
  the id and the first occurrence of the user's id from the activity's list, whether or
  not either side holds the link, leaves the other records alone and saves: it returns
  with the file holding the new document when no string of the document holds a lone
  surrogate, and raises \<open>UnicodeEncodeError\<close> with the lists changed and the file
  unreadable when one does. When each list held the id at most once, neither holds it
  afterwards and a second cancellation ends as the first did and changes nothing.
\<close>

theorem cancel_registration_effect:
  assumes "first_user (data m) user_id us_pre usr us_post"
    and "k < length (activities (data m))"
    and "act = activities (data m) ! k"
    and "d' = \<lparr>users = us_pre @ usr\<lparr>u_registered_activities :=
                         remove1 (a_id act) (u_registered_activities usr)\<rparr> # us_post,
               activities = (activities (data m))
                 [k := act\<lparr>a_participants := remove1 user_id (a_participants act)\<rparr>]\<rparr>"
  shows "cancel_registration m user_id k =
           (if encodable d' then (Inr (), \<lparr>data = d', data_file = Stored d'\<rparr>)
            else (Inl UnicodeEncodeError, \<lparr>data = d', data_file = Unreadable JSONDecodeError\<rparr>)) \<and>
         (count_list (u_registered_activities usr) (a_id act) \<le> 1 \<and>
          count_list (a_participants act) user_id \<le> 1 \<longrightarrow>
            a_id act \<notin> set (remove1 (a_id act) (u_registered_activities usr)) \<and>
            user_id \<notin> set (remove1 user_id (a_participants act)) \<and>
            cancel_registration (snd (cancel_registration m user_id k)) user_id k =
              cancel_registration m user_id k)"
proof -
  let ?usr' = "usr\<lparr>u_registered_activities := remove1 (a_id act) (u_registered_activities usr)\<rparr>"
  let ?act' = "act\<lparr>a_participants := remove1 user_id (a_participants act)\<rparr>"
  let ?r = "if encodable d' then (Inr (), \<lparr>data = d', data_file = Stored d'\<rparr>)
            else (Inl UnicodeEncodeError, \<lparr>data = d', data_file = Unreadable JSONDecodeError\<rparr>)"
  from cancel_registration_first[OF assms(1,2)]
  have r: "cancel_registration m user_id k = ?r"
    by (simp add: save_data_result assms(3,4))
  have idem: "cancel_registration (snd (cancel_registration m user_id k)) user_id k =
      cancel_registration m user_id k"
    if c: "count_list (u_registered_activities usr) (a_id act) \<le> 1"
          "count_list (a_participants act) user_id \<le> 1"
  proof -
    define m' where "m' = snd (cancel_registration m user_id k)"
    from r have dm: "data m' = d'" by (simp add: m'_def)
    from c(1) have n1: "a_id act \<notin> set (remove1 (a_id act) (u_registered_activities usr))"
      by (rule remove1_at_most_once)
    from c(2) have n2: "user_id \<notin> set (remove1 user_id (a_participants act))"
      by (rule remove1_at_most_once)
    from assms(1) have fu': "first_user (data m') user_id us_pre ?usr' us_post"
      by (simp add: dm assms(4) first_user_def)
    from assms(2) have k': "k < length (activities (data m'))"
      by (simp add: dm assms(4))
    from assms(2) have ak: "activities (data m') ! k = ?act'"
      by (simp add: dm assms(4))
    from n1 have uu: "?usr'\<lparr>u_registered_activities :=
        remove1 (a_id ?act') (u_registered_activities ?usr')\<rparr> = ?usr'"
      by (simp add: remove1_idem)
    from n2 have aa: "(activities (data m'))
        [k := ?act'\<lparr>a_participants := remove1 user_id (a_participants ?act')\<rparr>] =
        activities (data m')"
      by (simp add: remove1_idem dm assms(4))
    have "cancel_registration m' user_id k =
        save_data (m'\<lparr>data := \<lparr>users = us_pre @ ?usr' # us_post,
                                activities = activities (data m')\<rparr>\<rparr>)"
      unfolding cancel_registration_first[OF fu' k'] ak uu aa by (rule refl)
    also have "\<lparr>users = us_pre @ ?usr' # us_post, activities = activities (data m')\<rparr> = d'"
      by (simp add: dm assms(4))
    finally have "cancel_registration m' user_id k = ?r"
      by (simp add: save_data_result)
    with r show ?thesis by (simp add: m'_def)
  qed
  from r idem show ?thesis
    by (simp add: remove1_at_most_once)
qed

theorem cancel_registration_effect_witness:
  "first_user (data registered_matcher) 1 [] (sample_user\<lparr>u_registered_activities := [1]\<rparr>) [] \<and>
   0 < length (activities (data registered_matcher)) \<and>
   cancel_registration registered_matcher 1 0 = (Inr (), unregistered_matcher) \<and>
   cancel_registration unregistered_matcher 1 0 = (Inr (), unregistered_matcher) \<and>
   cancel_registration twin_registered 1 0 = (Inr (), twin_cancelled)"
proof -
  have d: "data registered_matcher =
      \<lparr>users = [sample_user\<lparr>u_registered_activities := [1]\<rparr>],
       activities = [sample_activity\<lparr>a_participants := [1]\<rparr>]\<rparr>"
    by (simp add: registered_matcher_eq)
  have h1: "first_user (data registered_matcher) 1 []
      (sample_user\<lparr>u_registered_activities := [1]\<rparr>) []"
    by (simp add: d first_user_def sample_user_def)
  have h2: "0 < length (activities (data registered_matcher))"
    by (simp add: d)
  have h3: "sample_activity\<lparr>a_participants := [1]\<rparr> = activities (data registered_matcher) ! 0"
    by (simp add: d)
  have h4: "data sample_matcher =
      \<lparr>users = [] @ sample_user\<lparr>u_registered_activities := [1]\<rparr>
                  \<lparr>u_registered_activities :=
                     remove1 (a_id (sample_activity\<lparr>a_participants := [1]\<rparr>))
                       (u_registered_activities (sample_user\<lparr>u_registered_activities := [1]\<rparr>))\<rparr>
                # [],
       activities = (activities (data registered_matcher))
         [0 := sample_activity\<lparr>a_participants := [1]\<rparr>
            \<lparr>a_participants :=
               remove1 1 (a_participants (sample_activity\<lparr>a_participants := [1]\<rparr>))\<rparr>]\<rparr>"
    by (simp add: d sample_matcher_def sample_user_def sample_activity_def)
  have e: "encodable (data sample_matcher)"
    by (simp add: sample_matcher_def encodable_defs sample_user_def sample_activity_def)
  have c: "count_list (u_registered_activities (sample_user\<lparr>u_registered_activities := [1]\<rparr>))
        (a_id (sample_activity\<lparr>a_participants := [1]\<rparr>)) \<le> 1 \<and>
      count_list (a_participants (sample_activity\<lparr>a_participants := [1]\<rparr>)) 1 \<le> 1"
    by (simp add: sample_activity_def)
  note t = cancel_registration_effect[OF h1 h2 h3 h4]
  from t e have 1: "cancel_registration registered_matcher 1 0 = (Inr (), unregistered_matcher)"
    by (simp add: unregistered_matcher_def)
  from t c have "cancel_registration (snd (cancel_registration registered_matcher 1 0)) 1 0 =
      cancel_registration registered_matcher 1 0"
    by blast
  with 1 have 2: "cancel_registration unregistered_matcher 1 0 = (Inr (), unregistered_matcher)"
    by simp
  have g1: "first_user (data twin_registered) 1 []
      (sample_user\<lparr>u_registered_activities := [1]\<rparr>) [twin_user]"
    by (simp add: twin_registered_def first_user_def sample_user_def)
  have g2: "0 < length (activities (data twin_registered))"
    by (simp add: twin_registered_def)
  have g3: "sample_activity\<lparr>a_participants := [1]\<rparr> = activities (data twin_registered) ! 0"
    by (simp add: twin_registered_def)
  have g4: "data twin_matcher =
      \<lparr>users = [] @ sample_user\<lparr>u_registered_activities := [1]\<rparr>
                  \<lparr>u_registered_activities :=
                     remove1 (a_id (sample_activity\<lparr>a_participants := [1]\<rparr>))
                       (u_registered_activities (sample_user\<lparr>u_registered_activities := [1]\<rparr>))\<rparr>
                # [twin_user],
       activities = (activities (data twin_registered))
         [0 := sample_activity\<lparr>a_participants := [1]\<rparr>
            \<lparr>a_participants :=
               remove1 1 (a_participants (sample_activity\<lparr>a_participants := [1]\<rparr>))\<rparr>]\<rparr>"
    by (simp add: twin_registered_def twin_matcher_def sample_user_def sample_activity_def)
  have ge: "encodable (data twin_matcher)"
    by (simp add: twin_matcher_def twin_user_def twin_activity_def encodable_defs
        sample_user_def sample_activity_def)
  from cancel_registration_effect[OF g1 g2 g3 g4] ge
  have 3: "cancel_registration twin_registered 1 0 = (Inr (), twin_cancelled)"
    by (simp add: twin_cancelled_def)
  from h1 h2 1 2 3 show ?thesis by simp
qed

text \<open>
  Claim C6 as stated fails twice over. With the activity held twice by the user, the
  user still holds it after one cancellation and a second cancellation changes the
  document again. And with a description that holds a lone surrogate the cancellation
  does not succeed: it raises out of the save after both lists were changed.
\<close>

theorem cancel_twice_differs:
  "cancel_registration duplicate_matcher 1 0 = (Inr (), once_cancelled) \<and>
   map u_registered_activities (users (data once_cancelled)) = [[1]] \<and>
   snd (cancel_registration once_cancelled 1 0) \<noteq> once_cancelled \<and>
   cancel_registration surrogate_linked 1 0 = (Inl UnicodeEncodeError, surrogate_cancelled)"
  by (simp add: duplicate_matcher_def once_cancelled_def surrogate_linked_def
      surrogate_cancelled_def surrogate_document_def sample_user_def sample_activity_def
      op_defs encodable_defs)

end
